theory Spec2Isabelle
  imports Complex_Main
begin

section \<open>Exceptions and results\<close>

text \<open>
  The Python exception classes that the module raises or that the interpreter raises
  inside it. An exception value carries its class and the text of \<open>str(e)\<close>.
  \<open>KeyboardInterrupt\<close>, \<open>SystemExit\<close>, \<open>GeneratorExit\<close> and \<open>asyncio.CancelledError\<close>
  derive from \<open>BaseException\<close> and not from \<open>Exception\<close>, as may a class of a library
  (\<open>OtherBaseException\<close>); every other class derives from \<open>Exception\<close>. A handler
  \<open>except Exception\<close> catches exactly the latter.
\<close>

datatype exn_class =
    ValueError
  | FileNotFoundError
  | RuntimeError
  | IndexError
  | KeyError
  | AttributeError
  | ClientError
  | OtherException string
  | KeyboardInterrupt
  | SystemExit
  | GeneratorExit
  | CancelledError
  | OtherBaseException string

datatype exn = Exn exn_class string

fun exn_str :: "exn \<Rightarrow> string" where
  "exn_str (Exn c m) = m"

fun is_Exception :: "exn \<Rightarrow> bool" where
  "is_Exception (Exn KeyboardInterrupt m) = False"
| "is_Exception (Exn SystemExit m) = False"
| "is_Exception (Exn GeneratorExit m) = False"
| "is_Exception (Exn CancelledError m) = False"
| "is_Exception (Exn (OtherBaseException n) m) = False"
| "is_Exception (Exn c m) = True"

text \<open>A call either raises (\<open>Inl\<close>) or returns (\<open>Inr\<close>).\<close>

type_synonym 'a result = "exn + 'a"


section \<open>Path safety\<close>

text \<open>Python's \<open>sub in s\<close> on strings: \<open>sub\<close> occurs in \<open>s\<close> as a contiguous run.\<close>

fun startswith :: "string \<Rightarrow> string \<Rightarrow> bool" where
  "startswith s [] = True"
| "startswith [] (c # cs) = False"
| "startswith (d # ds) (c # cs) = (d = c \<and> startswith ds cs)"

fun str_in :: "string \<Rightarrow> string \<Rightarrow> bool" where
  "str_in sub [] = (sub = [])"
| "str_in sub (c # cs) = (startswith (c # cs) sub \<or> str_in sub cs)"

definition apostrophe :: string where
  "apostrophe = [CHR 0x27]"

text \<open>
  \<^verbatim>\<open>
  def ensure_path_safety(path: str) -> str:
      if ".." in path or "~" in path:
          raise ValueError(f"Path '{path}' is not safe.")
      return path
  \<close>
\<close>

definition ensure_path_safety :: "string \<Rightarrow> string result" where
  "ensure_path_safety path =
     (if str_in ''..'' path \<or> str_in ''~'' path
      then Inl (Exn ValueError (''Path '' @ apostrophe @ path @ apostrophe @ '' is not safe.''))
      else Inr path)"


section \<open>The world outside the module\<close>

text \<open>
  What \<open>os.path.isfile\<close>, \<open>os.path.islink\<close> and \<open>os.path.exists\<close> can tell about a
  path: the kind of object the path leads to once symbolic links are followed
  (\<open>Missing\<close> when it leads nowhere), and whether the entry itself is a symbolic link.
  \<open>Plain Missing\<close> is a path with no entry; \<open>Symlink Missing\<close> is a dangling link.
\<close>

datatype target = Missing | Regular | Directory | Special

datatype fentry = Plain target | Symlink target

fun entry_isfile :: "fentry \<Rightarrow> bool" where
  "entry_isfile (Plain t) = (t = Regular)"
| "entry_isfile (Symlink t) = (t = Regular)"

fun entry_islink :: "fentry \<Rightarrow> bool" where
  "entry_islink (Plain t) = False"
| "entry_islink (Symlink t) = True"

fun entry_exists :: "fentry \<Rightarrow> bool" where
  "entry_exists (Plain t) = (t \<noteq> Missing)"
| "entry_exists (Symlink t) = (t \<noteq> Missing)"

text \<open>
  Every call that leaves the module (a file-system query, a log record, a request to the
  object store, a read of a weight file) is recorded as an event.
\<close>

datatype event =
    IsFile string
  | IsLink string
  | LogInfo string
  | LogInfoSaved string real
  | LogWarning string
  | LogError string
  | HeadObject string string
  | DownloadFile string string string
  | LoadTorchFile string

text \<open>
  The world: a counter of the events so far, the file system as it stands at each
  count (other processes may change it between two queries of one call), the working
  directory, the wall clock at each count, and the events in order.
\<close>

record world =
  clock :: nat
  fs :: "nat \<Rightarrow> string \<Rightarrow> fentry"
  cwd :: string
  wallclock :: "nat \<Rightarrow> real"
  trace :: "event list"

definition emit :: "event \<Rightarrow> world \<Rightarrow> world" where
  "emit e w = w\<lparr>clock := Suc (clock w), trace := trace w @ [e]\<rparr>"

definition os_path_isfile :: "string \<Rightarrow> world \<Rightarrow> bool \<times> world" where
  "os_path_isfile p w = (entry_isfile (fs w (clock w) p), emit (IsFile p) w)"

definition os_path_islink :: "string \<Rightarrow> world \<Rightarrow> bool \<times> world" where
  "os_path_islink p w = (entry_islink (fs w (clock w) p), emit (IsLink p) w)"

definition time_time :: "world \<Rightarrow> real" where
  "time_time w = wallclock w (clock w)"

definition logging_info :: "string \<Rightarrow> world \<Rightarrow> world" where
  "logging_info msg w = emit (LogInfo msg) w"

definition logging_warning :: "string \<Rightarrow> world \<Rightarrow> world" where
  "logging_warning msg w = emit (LogWarning msg) w"

definition logging_error :: "string \<Rightarrow> world \<Rightarrow> world" where
  "logging_error msg w = emit (LogError msg) w"


section \<open>POSIX path functions of the standard library\<close>

text \<open>\<open>s.split('/')\<close>: the pieces between the slashes, empty pieces included.\<close>

fun split_sep :: "string \<Rightarrow> string list" where
  "split_sep [] = [[]]"
| "split_sep (c # cs) =
     (if c = CHR ''/'' then [] # split_sep cs
      else (case split_sep cs of [] \<Rightarrow> [[c]] | x # xs \<Rightarrow> (c # x) # xs))"

fun endswith_sep :: "string \<Rightarrow> bool" where
  "endswith_sep [] = False"
| "endswith_sep [c] = (c = CHR ''/'')"
| "endswith_sep (c # d # cs) = endswith_sep (d # cs)"

text \<open>
  \<open>posixpath.join(a, b)\<close>: an absolute \<open>b\<close> replaces \<open>a\<close>; otherwise \<open>b\<close> is appended,
  after a slash unless \<open>a\<close> is empty or ends with one.
\<close>

definition os_path_join :: "string \<Rightarrow> string \<Rightarrow> string" where
  "os_path_join a b =
     (if startswith b ''/'' then b
      else if a = [] \<or> endswith_sep a then a @ b
      else a @ ''/'' @ b)"

text \<open>\<open>'/'.join(comps)\<close>.\<close>

fun sep_join :: "string list \<Rightarrow> string" where
  "sep_join [] = []"
| "sep_join [x] = x"
| "sep_join (x # y # ys) = x @ ''/'' @ sep_join (y # ys)"

text \<open>
  The loop of \<open>posixpath.normpath\<close> over the pieces of the path; \<open>new_comps\<close> is kept
  in order, \<open>initial_slashes\<close> is the number of leading slashes kept (0, 1 or 2).
\<close>

fun normpath_loop :: "nat \<Rightarrow> string list \<Rightarrow> string list \<Rightarrow> string list" where
  "normpath_loop initial_slashes new_comps [] = new_comps"
| "normpath_loop initial_slashes new_comps (piece # pieces) =
     (if piece = [] \<or> piece = ''.'' then normpath_loop initial_slashes new_comps pieces
      else if piece \<noteq> ''..'' \<or> (initial_slashes = 0 \<and> new_comps = [])
              \<or> (new_comps \<noteq> [] \<and> last new_comps = ''..'')
        then normpath_loop initial_slashes (new_comps @ [piece]) pieces
      else if new_comps \<noteq> [] then normpath_loop initial_slashes (butlast new_comps) pieces
      else normpath_loop initial_slashes new_comps pieces)"

definition os_path_normpath :: "string \<Rightarrow> string" where
  "os_path_normpath path =
     (if path = [] then ''.''
      else
        let initial_slashes =
              (if startswith path ''/'' then
                 (if startswith path ''//'' \<and> \<not> startswith path ''///'' then 2 else 1)
               else (0::nat));
            comps = normpath_loop initial_slashes [] (split_sep path);
            path' = replicate initial_slashes (CHR ''/'') @ sep_join comps
        in if path' = [] then ''.'' else path')"

definition os_path_abspath :: "string \<Rightarrow> string \<Rightarrow> string" where
  "os_path_abspath current path =
     os_path_normpath (if startswith path ''/'' then path else os_path_join current path)"

fun commonprefix :: "string list \<Rightarrow> string list \<Rightarrow> string list" where
  "commonprefix (x # xs) (y # ys) = (if x = y then x # commonprefix xs ys else [])"
| "commonprefix xs ys = []"

text \<open>
  \<open>posixpath.relpath(path, start)\<close>, the working directory given as \<open>current\<close>:
  as many \<open>..\<close> as \<open>start\<close> has components past the common prefix, then the rest of
  \<open>path\<close>; \<open>.\<close> when nothing is left. An empty \<open>path\<close> raises.
\<close>

definition os_path_relpath :: "string \<Rightarrow> string \<Rightarrow> string \<Rightarrow> string result" where
  "os_path_relpath current path start =
     (if path = [] then Inl (Exn ValueError ''no path specified'')
      else
        let start_list = filter (\<lambda>x. x \<noteq> []) (split_sep (os_path_abspath current start));
            path_list = filter (\<lambda>x. x \<noteq> []) (split_sep (os_path_abspath current path));
            i = length (commonprefix start_list path_list);
            rel_list = replicate (length start_list - i) ''..'' @ drop i path_list
        in case rel_list of
             [] \<Rightarrow> Inr ''.''
           | r # rs \<Rightarrow> Inr (foldl os_path_join r rs))"


section \<open>The host's folder configuration\<close>

text \<open>
  The module \<open>folder_paths\<close> belongs to the host application and is not part of this
  repository. Its two names used here are taken as given: \<open>map_legacy\<close> renames a
  category, \<open>folder_names_and_paths\<close> maps a category to a pair of its search
  directories, in order, and its file extensions.
\<close>

record folder_paths =
  map_legacy :: "string \<Rightarrow> string"
  folder_names_and_paths :: "string \<rightharpoonup> (string list \<times> string set)"


section \<open>Local path resolution\<close>

text \<open>
  The loop of \<open>get_full_path_simulate\<close> over the search directories:
  \<^verbatim>\<open>
      for x in folders[0]:
          full_path = os.path.join(x, filename)
          if os.path.isfile(full_path):
              return full_path, True
          elif os.path.islink(full_path):
              logging.warning("WARNING path {} exists but doesn't link anywhere, skipping.".format(full_path))
  \<close>
  \<open>Some\<close> is the early return, \<open>None\<close> the end of the loop.
\<close>

definition link_warning :: "string \<Rightarrow> string" where
  "link_warning full_path =
     ''WARNING path '' @ full_path @ '' exists but doesn'' @ apostrophe
       @ ''t link anywhere, skipping.''"

fun search_folders :: "string list \<Rightarrow> string \<Rightarrow> world \<Rightarrow> string option \<times> world" where
  "search_folders [] filename w = (None, w)"
| "search_folders (x # xs) filename w =
     (let full_path = os_path_join x filename;
          (is_file, w1) = os_path_isfile full_path w
      in if is_file then (Some full_path, w1)
         else
           let (is_link, w2) = os_path_islink full_path w1
           in if is_link
              then search_folders xs filename (logging_warning (link_warning full_path) w2)
              else search_folders xs filename w2)"

text \<open>
  \<^verbatim>\<open>
  def get_full_path_simulate(folder_name: str, filename: str) -> Tuple[str, bool]:
      folder_name = ensure_path_safety(folder_name)
      filename = ensure_path_safety(filename)
      folder_name = folder_paths.map_legacy(folder_name)
      if folder_name not in folder_paths.folder_names_and_paths:
          raise FileNotFoundError(f"Folder '{folder_name}' not found in folder_names_and_paths.")
      folders = folder_paths.folder_names_and_paths[folder_name]
      filename = os.path.relpath(os.path.join("/", filename), "/")
      for x in folders[0]: ...
      # fallback to first folder
      full_path = os.path.join(folders[0][0], filename)
      if not os.path.isfile(full_path):
          return full_path, False
      raise RuntimeError(f"This condition should never be reached, {full_path} exists but is not a file.")
  \<close>
  \<open>folders[0][0]\<close> raises \<open>IndexError\<close> on an empty list of directories.
\<close>

definition folder_not_found :: "string \<Rightarrow> exn" where
  "folder_not_found folder_name =
     Exn FileNotFoundError
       (''Folder '' @ apostrophe @ folder_name @ apostrophe
          @ '' not found in folder_names_and_paths.'')"

definition should_never_be_reached :: "string \<Rightarrow> exn" where
  "should_never_be_reached full_path =
     Exn RuntimeError
       (''This condition should never be reached, '' @ full_path
          @ '' exists but is not a file.'')"

definition get_full_path_simulate ::
  "folder_paths \<Rightarrow> string \<Rightarrow> string \<Rightarrow> world \<Rightarrow> (string \<times> bool) result \<times> world" where
  "get_full_path_simulate fp folder_name filename w =
     (case ensure_path_safety folder_name of
        Inl e \<Rightarrow> (Inl e, w)
      | Inr folder_name1 \<Rightarrow>
     (case ensure_path_safety filename of
        Inl e \<Rightarrow> (Inl e, w)
      | Inr filename1 \<Rightarrow>
     (let folder_name2 = map_legacy fp folder_name1 in
      case folder_names_and_paths fp folder_name2 of
        None \<Rightarrow> (Inl (folder_not_found folder_name2), w)
      | Some folders \<Rightarrow>
     (case os_path_relpath (cwd w) (os_path_join ''/'' filename1) ''/'' of
        Inl e \<Rightarrow> (Inl e, w)
      | Inr filename2 \<Rightarrow>
     (case search_folders (fst folders) filename2 w of
        (Some full_path, w1) \<Rightarrow> (Inr (full_path, True), w1)
      | (None, w1) \<Rightarrow>
     (case fst folders of
        [] \<Rightarrow> (Inl (Exn IndexError ''list index out of range''), w1)
      | first_folder # rest \<Rightarrow>
          let full_path = os_path_join first_folder filename2;
              (is_file, w2) = os_path_isfile full_path w1
          in if \<not> is_file then (Inr (full_path, False), w2)
             else (Inl (should_never_be_reached full_path), w2)))))))"


section \<open>Remote fetch\<close>

text \<open>
  The object-store client is built outside this module. Its two methods used here are
  taken as given, each a function of the moment of the call and of its arguments:
  \<open>head_object\<close> returns the response's integer fields or raises, \<open>download_file\<close>
  returns or raises. Whatever the progress callback does during a transfer is part of
  what \<open>download_file\<close> does.
\<close>

record transfer_config =
  multipart_threshold :: nat
  max_concurrency :: nat
  multipart_chunksize :: nat

definition TransferConfig :: "nat \<Rightarrow> nat \<Rightarrow> nat \<Rightarrow> transfer_config" where
  "TransferConfig threshold concurrency chunksize =
     \<lparr>multipart_threshold = threshold, max_concurrency = concurrency,
      multipart_chunksize = chunksize\<rparr>"

text \<open>
  The state of a \<open>ProgressPercentage\<close> object as \<open>__init__\<close> leaves it. Its
  \<open>__call__\<close> (floating-point arithmetic and a write to standard output) is not modelled.
\<close>

record progress_percentage =
  p_file_size :: int
  p_seen_so_far :: int
  p_start_time :: real

definition ProgressPercentage :: "int \<Rightarrow> world \<Rightarrow> progress_percentage" where
  "ProgressPercentage file_size w =
     \<lparr>p_file_size = file_size, p_seen_so_far = 0, p_start_time = time_time w\<rparr>"

record s3 =
  head_object :: "nat \<Rightarrow> string \<Rightarrow> string \<Rightarrow> (string \<rightharpoonup> int) result"
  download_file ::
    "nat \<Rightarrow> string \<Rightarrow> string \<Rightarrow> string \<Rightarrow> transfer_config \<Rightarrow> progress_percentage
       \<Rightarrow> unit result"

definition call_head_object ::
  "s3 \<Rightarrow> string \<Rightarrow> string \<Rightarrow> world \<Rightarrow> (string \<rightharpoonup> int) result \<times> world" where
  "call_head_object c bucket_name object_key w =
     (head_object c (clock w) bucket_name object_key, emit (HeadObject bucket_name object_key) w)"

definition call_download_file ::
  "s3 \<Rightarrow> string \<Rightarrow> string \<Rightarrow> string \<Rightarrow> transfer_config \<Rightarrow> progress_percentage \<Rightarrow> world
     \<Rightarrow> unit result \<times> world" where
  "call_download_file c bucket_name object_key save_path config callback w =
     (download_file c (clock w) bucket_name object_key save_path config callback,
      emit (DownloadFile bucket_name object_key save_path) w)"

text \<open>
  The module's global variables. The module binds \<open>s3_client\<close> twice while it loads:
  \<^verbatim>\<open>
  from .s3_manager import s3_client
  ...
  s3_client: boto3.client = None
  \<close>
  \<open>module_globals\<close> is the binding in force once the module is loaded, for the client
  that \<open>s3_manager\<close> built.
\<close>

record globals =
  s3_client :: "s3 option"

definition module_globals :: "s3 \<Rightarrow> globals" where
  "module_globals imported = (\<lparr>s3_client = Some imported\<rparr>)\<lparr>s3_client := None\<rparr>"

text \<open>
  \<^verbatim>\<open>
  def get_lora_from_s3(bucket_name: str, object_key: str, save_path: str) -> bool:
      try:
          logging.info(f"Fetching LoRA from S3: {bucket_name}/{object_key} to {save_path}")
          response = s3_client.head_object(Bucket=bucket_name, Key=object_key)
          file_size = response['ContentLength']
          config = TransferConfig(multipart_threshold=1024 * 25, max_concurrency=10,
                                  multipart_chunksize=1024 * 25)
          start_time = time.time()
          s3_client.download_file(bucket_name, object_key, save_path,
                                  Config=config, Callback=ProgressPercentage(file_size))
          elapsed_time = time.time() - start_time
          logging.info(f"Successfully saved LoRA file to {save_path} in {elapsed_time:.2f} seconds.")
          return True
      except Exception as e:
          logging.error(f"Error fetching LoRA from S3: {e}")
          return False
  \<close>
  \<open>except_Exception\<close> is the handler: it takes what the \<open>try\<close> block raised. An
  attribute access on \<open>None\<close> raises \<open>AttributeError\<close>, a missing dictionary key
  \<open>KeyError\<close>.
\<close>

definition fetching_message :: "string \<Rightarrow> string \<Rightarrow> string \<Rightarrow> string" where
  "fetching_message bucket_name object_key save_path =
     ''Fetching LoRA from S3: '' @ bucket_name @ ''/'' @ object_key @ '' to '' @ save_path"

definition error_message :: "exn \<Rightarrow> string" where
  "error_message e = ''Error fetching LoRA from S3: '' @ exn_str e"

definition except_Exception :: "exn \<Rightarrow> world \<Rightarrow> bool result \<times> world" where
  "except_Exception e w =
     (if is_Exception e then (Inr False, logging_error (error_message e) w)
      else (Inl e, w))"

definition none_has_no_head_object :: exn where
  "none_has_no_head_object =
     Exn AttributeError
       (apostrophe @ ''NoneType'' @ apostrophe @ '' object has no attribute ''
          @ apostrophe @ ''head_object'' @ apostrophe)"

definition get_lora_from_s3 ::
  "globals \<Rightarrow> string \<Rightarrow> string \<Rightarrow> string \<Rightarrow> world \<Rightarrow> bool result \<times> world" where
  "get_lora_from_s3 g bucket_name object_key save_path w =
     (let w1 = logging_info (fetching_message bucket_name object_key save_path) w in
      case s3_client g of
        None \<Rightarrow> except_Exception none_has_no_head_object w1
      | Some c \<Rightarrow>
     (case call_head_object c bucket_name object_key w1 of
        (Inl e, w2) \<Rightarrow> except_Exception e w2
      | (Inr response, w2) \<Rightarrow>
     (case response ''ContentLength'' of
        None \<Rightarrow> except_Exception (Exn KeyError (apostrophe @ ''ContentLength'' @ apostrophe)) w2
      | Some file_size \<Rightarrow>
          let config = TransferConfig (1024 * 25) 10 (1024 * 25);
              start_time = time_time w2
          in case call_download_file c bucket_name object_key save_path config
                    (ProgressPercentage file_size w2) w2 of
               (Inl e, w3) \<Rightarrow> except_Exception e w3
             | (Inr u, w3) \<Rightarrow>
                 let elapsed_time = time_time w3 - start_time
                 in (Inr True, emit (LogInfoSaved save_path elapsed_time) w3))))"


section \<open>Local path or remote fetch\<close>

text \<open>
  \<^verbatim>\<open>
  def get_full_path_or_raise(folder_name, filename, bucket_name, object_key) -> str:
      full_path, exists = get_full_path_simulate(folder_name, filename)
      if not exists:
          if not get_lora_from_s3(bucket_name, object_key, full_path):
              raise FileNotFoundError(f"Failed to fetch LoRA from S3: {bucket_name}/{object_key}")
          return full_path
      return full_path
  \<close>
\<close>

definition failed_to_fetch :: "string \<Rightarrow> string \<Rightarrow> exn" where
  "failed_to_fetch bucket_name object_key =
     Exn FileNotFoundError (''Failed to fetch LoRA from S3: '' @ bucket_name @ ''/'' @ object_key)"

definition get_full_path_or_raise ::
  "globals \<Rightarrow> folder_paths \<Rightarrow> string \<Rightarrow> string \<Rightarrow> string \<Rightarrow> string \<Rightarrow> world
     \<Rightarrow> string result \<times> world" where
  "get_full_path_or_raise g fp folder_name filename bucket_name object_key w =
     (case get_full_path_simulate fp folder_name filename w of
        (Inl e, w1) \<Rightarrow> (Inl e, w1)
      | (Inr (full_path, exists), w1) \<Rightarrow>
          if \<not> exists then
            (case get_lora_from_s3 g bucket_name object_key full_path w1 of
               (Inl e, w2) \<Rightarrow> (Inl e, w2)
             | (Inr fetched, w2) \<Rightarrow>
                 if \<not> fetched then (Inl (failed_to_fetch bucket_name object_key), w2)
                 else (Inr full_path, w2))
          else (Inr full_path, w1))"


section \<open>The loader node and its one cached weight file\<close>

text \<open>
  The host's library functions \<open>comfy.utils.load_torch_file\<close> (reads a weight file; a
  function of the moment of the call and of the path) and
  \<open>comfy.sd.load_lora_for_models\<close> are taken as given. \<open>'w\<close> is the type of a decoded
  weight file, \<open>'m\<close> and \<open>'c\<close> those of the two models. A value that the code tests
  with \<open>is None\<close> is an option: \<open>None\<close> is Python's \<open>None\<close>, which \<open>load_torch_file\<close>
  may return like any function.
\<close>

record ('m, 'c, 'w) comfy =
  load_torch_file :: "nat \<Rightarrow> string \<Rightarrow> 'w option result"
  load_lora_for_models ::
    "'m \<Rightarrow> 'c \<Rightarrow> 'w option \<Rightarrow> real \<Rightarrow> real \<Rightarrow> ('m \<times> 'c) result"

definition call_load_torch_file ::
  "('m, 'c, 'w) comfy \<Rightarrow> string \<Rightarrow> world \<Rightarrow> 'w option result \<times> world" where
  "call_load_torch_file host lora_path w =
     (load_torch_file host (clock w) lora_path, emit (LoadTorchFile lora_path) w)"

text \<open>
  The node object: \<open>self.loaded_lora\<close> is \<open>None\<close> or a pair of a path and what
  \<open>load_torch_file\<close> returned for it.
\<close>

record 'w lora_loader =
  loaded_lora :: "(string \<times> 'w option) option"


text \<open>
  The first half of the cache code in \<open>load_lora\<close>; the result is the local variable
  \<open>lora\<close> and the node:
  \<^verbatim>\<open>
      lora = None
      if self.loaded_lora is not None:
          if self.loaded_lora[0] == lora_path:
              lora = self.loaded_lora[1]
          else:
              temp = self.loaded_lora
              self.loaded_lora = None
              del temp
  \<close>
\<close>

definition cache_lookup :: "'w lora_loader \<Rightarrow> string \<Rightarrow> 'w option \<times> 'w lora_loader" where
  "cache_lookup self lora_path =
     (case loaded_lora self of
        None \<Rightarrow> (None, self)
      | Some entry \<Rightarrow>
          if fst entry = lora_path then (snd entry, self)
          else (None, self\<lparr>loaded_lora := None\<rparr>))"

text \<open>
  The second half, which tests the variable \<open>lora\<close> again; the result is \<open>lora\<close> (or
  what the read raised), the node and the world:
  \<^verbatim>\<open>
      if lora is None:
          lora = comfy.utils.load_torch_file(lora_path, safe_load=True)
          self.loaded_lora = (lora_path, lora)
  \<close>
\<close>

definition cache_fill ::
  "('m, 'c, 'w) comfy \<Rightarrow> 'w option \<Rightarrow> 'w lora_loader \<Rightarrow> string \<Rightarrow> world
     \<Rightarrow> 'w option result \<times> 'w lora_loader \<times> world" where
  "cache_fill host lora self lora_path w =
     (case lora of
        Some weights \<Rightarrow> (Inr (Some weights), self, w)
      | None \<Rightarrow>
          (case call_load_torch_file host lora_path w of
             (Inl e, w1) \<Rightarrow> (Inl e, self, w1)
           | (Inr lora1, w1) \<Rightarrow>
               (Inr lora1, self\<lparr>loaded_lora := Some (lora_path, lora1)\<rparr>, w1)))"

definition cached_lora ::
  "('m, 'c, 'w) comfy \<Rightarrow> 'w lora_loader \<Rightarrow> string \<Rightarrow> world
     \<Rightarrow> 'w option result \<times> 'w lora_loader \<times> world" where
  "cached_lora host self lora_path w =
     (let (lora, self1) = cache_lookup self lora_path
      in cache_fill host lora self1 lora_path w)"

text \<open>
  \<^verbatim>\<open>
  def load_lora(self, model, clip, lora_name, strength_model, strength_clip, bucket_name, object_key):
      if strength_model == 0 and strength_clip == 0:
          return (model, clip)
      lora_path = get_full_path_or_raise("loras", lora_name, bucket_name, object_key)
      ... (the cache code above) ...
      model_lora, clip_lora = comfy.sd.load_lora_for_models(model, clip, lora, strength_model, strength_clip)
      return (model_lora, clip_lora)
  \<close>
  The node is returned with the result, also when the call raises.
\<close>

definition load_lora ::
  "globals \<Rightarrow> folder_paths \<Rightarrow> ('m, 'c, 'w) comfy \<Rightarrow> 'w lora_loader \<Rightarrow> 'm \<Rightarrow> 'c \<Rightarrow> string
     \<Rightarrow> real \<Rightarrow> real \<Rightarrow> string \<Rightarrow> string \<Rightarrow> world
     \<Rightarrow> ('m \<times> 'c) result \<times> 'w lora_loader \<times> world" where
  "load_lora g fp host self model clip lora_name strength_model strength_clip
       bucket_name object_key w =
     (if strength_model = 0 \<and> strength_clip = 0 then (Inr (model, clip), self, w)
      else
        case get_full_path_or_raise g fp ''loras'' lora_name bucket_name object_key w of
          (Inl e, w1) \<Rightarrow> (Inl e, self, w1)
        | (Inr lora_path, w1) \<Rightarrow>
            (case cached_lora host self lora_path w1 of
               (Inl e, self2, w2) \<Rightarrow> (Inl e, self2, w2)
             | (Inr lora, self2, w2) \<Rightarrow>
                 (load_lora_for_models host model clip lora strength_model strength_clip,
                  self2, w2)))"

text \<open>
  \<^verbatim>\<open>
  def load_lora_model_only(self, model, lora_name, strength_model, bucket_name, object_key):
      return (self.load_lora(model, None, lora_name, strength_model, 0, bucket_name, object_key)[0],)
  \<close>
\<close>

definition load_lora_model_only ::
  "globals \<Rightarrow> folder_paths \<Rightarrow> ('m, 'c option, 'w) comfy \<Rightarrow> 'w lora_loader \<Rightarrow> 'm \<Rightarrow> string
     \<Rightarrow> real \<Rightarrow> string \<Rightarrow> string \<Rightarrow> world \<Rightarrow> 'm result \<times> 'w lora_loader \<times> world" where
  "load_lora_model_only g fp host self model lora_name strength_model bucket_name object_key w =
     (case load_lora g fp host self model None lora_name strength_model 0
             bucket_name object_key w of
        (Inl e, self1, w1) \<Rightarrow> (Inl e, self1, w1)
      | (Inr r, self1, w1) \<Rightarrow> (Inr (fst r), self1, w1))"


section \<open>Notions used in the statements\<close>

text \<open>
  The file name as the resolver joins it to a directory: what
  \<open>os.path.relpath(os.path.join("/", filename), "/")\<close> returns (lemma \<open>relpath_root\<close>).
\<close>

definition root_relative :: "string \<Rightarrow> string" where
  "root_relative filename =
     (case filter (\<lambda>x. x \<noteq> []) (split_sep (os_path_normpath (os_path_join ''/'' filename))) of
        [] \<Rightarrow> ''.''
      | r # rs \<Rightarrow> foldl os_path_join r rs)"

text \<open>Events of the local file system and its warnings; events of the object store.\<close>

fun local_event :: "event \<Rightarrow> bool" where
  "local_event (IsFile p) = True"
| "local_event (IsLink p) = True"
| "local_event (LogWarning m) = True"
| "local_event e = False"

fun remote_event :: "event \<Rightarrow> bool" where
  "remote_event (HeadObject b k) = True"
| "remote_event (DownloadFile b k p) = True"
| "remote_event e = False"

fun load_event :: "event \<Rightarrow> bool" where
  "load_event (LoadTorchFile p) = True"
| "load_event e = False"

text \<open>The first record of a fetch: every call of \<open>get_lora_from_s3\<close> starts with it.\<close>

fun fetch_start :: "event \<Rightarrow> bool" where
  "fetch_start (LogInfo m) = startswith m ''Fetching LoRA from S3: ''"
| "fetch_start e = False"

text \<open>
  The directories the resolver searches for a category: the category name has to pass
  the safety check, and is looked up under the name \<open>map_legacy\<close> gives it.
\<close>

definition search_directories :: "folder_paths \<Rightarrow> string \<Rightarrow> string list result" where
  "search_directories fp folder_name =
     (case ensure_path_safety folder_name of
        Inl e \<Rightarrow> Inl e
      | Inr folder_name1 \<Rightarrow>
          (case folder_names_and_paths fp (map_legacy fp folder_name1) of
             None \<Rightarrow> Inl (folder_not_found (map_legacy fp folder_name1))
           | Some folders \<Rightarrow> Inr (fst folders)))"


section \<open>Concrete inputs\<close>

text \<open>
  A host with one category, \<open>loras\<close>, searched in \<open>/m/loras\<close> and then \<open>/m/extra\<close>, and
  the host's two legacy names. The file system does not change: \<open>a.pt\<close> is a regular
  file in both directories, \<open>b.pt\<close> a dangling link in the first and a regular file in
  the second, \<open>/m/loras/d\<close> a directory, and nothing else exists.
\<close>

definition demo_folders :: folder_paths where
  "demo_folders =
     \<lparr>map_legacy = (\<lambda>n. if n = ''unet'' then ''diffusion_models''
                        else if n = ''clip'' then ''text_encoders'' else n),
      folder_names_and_paths = [''loras'' \<mapsto> ([''/m/loras'', ''/m/extra''], {''.pt''})]\<rparr>"

definition demo_fs :: "nat \<Rightarrow> string \<Rightarrow> fentry" where
  "demo_fs t p =
     (if p = ''/m/loras/a.pt'' \<or> p = ''/m/extra/a.pt'' \<or> p = ''/m/extra/b.pt'' then Plain Regular
      else if p = ''/m/loras/b.pt'' then Symlink Missing
      else if p = ''/m/loras/d'' then Plain Directory
      else Plain Missing)"

definition demo_world :: world where
  "demo_world = \<lparr>clock = 0, fs = demo_fs, cwd = ''/home'', wallclock = real, trace = []\<rparr>"

text \<open>
  An object store that holds every object with seven bytes, one that holds none, and one
  whose transfer is interrupted from the keyboard.
\<close>

definition full_store :: s3 where
  "full_store =
     \<lparr>head_object = (\<lambda>t b k. Inr [''ContentLength'' \<mapsto> 7]),
      download_file = (\<lambda>t b k p config callback. Inr ())\<rparr>"

definition empty_store :: s3 where
  "empty_store =
     \<lparr>head_object = (\<lambda>t b k. Inl (Exn ClientError ''Not Found'')),
      download_file = (\<lambda>t b k p config callback. Inl (Exn ClientError ''Not Found''))\<rparr>"





section \<open>Properties of the path safety check\<close>

lemma startswith_iff: "startswith s p \<longleftrightarrow> (\<exists>r. s = p @ r)"
  by (induction s p rule: startswith.induct) auto

lemma str_in_iff: "str_in sub s \<longleftrightarrow> (\<exists>u v. s = u @ sub @ v)"
proof (induction s)
  case Nil
  then show ?case by auto
next
  case (Cons c cs)
  show ?case
  proof
    assume "str_in sub (c # cs)"
    then consider "startswith (c # cs) sub" | "str_in sub cs" by auto
    then show "\<exists>u v. c # cs = u @ sub @ v"
    proof cases
      case 1
      then obtain r where "c # cs = sub @ r" by (auto simp: startswith_iff)
      then have "c # cs = [] @ sub @ r" by simp
      then show ?thesis by blast
    next
      case 2
      then obtain u v where "cs = u @ sub @ v" using Cons.IH by blast
      then have "c # cs = (c # u) @ sub @ v" by simp
      then show ?thesis by blast
    qed
  next
    assume "\<exists>u v. c # cs = u @ sub @ v"
    then obtain u v where uv: "c # cs = u @ sub @ v" by blast
    show "str_in sub (c # cs)"
    proof (cases u)
      case Nil
      with uv have "startswith (c # cs) sub" by (auto simp: startswith_iff)
      then show ?thesis by simp
    next
      case (Cons d ds)
      with uv have "cs = ds @ sub @ v" by simp
      then have "str_in sub cs" using Cons.IH by blast
      then show ?thesis by simp
    qed
  qed
qed

lemma str_in_char: "str_in [c] s \<longleftrightarrow> c \<in> set s"
  by (induction s) auto

text \<open>
  C4. A path in which the two characters \<open>..\<close> occur side by side, or in which \<open>~\<close>
  occurs, is rejected with a \<open>ValueError\<close> whose message quotes that path; every other
  path is returned as it is. The check is a function of the path alone: it reads and
  writes nothing else.
\<close>

theorem ensure_path_safety_spec:
  "ensure_path_safety path =
     (if (\<exists>u v. path = u @ ''..'' @ v) \<or> CHR ''~'' \<in> set path
      then Inl (Exn ValueError (''Path '' @ apostrophe @ path @ apostrophe @ '' is not safe.''))
      else Inr path)"
proof -
  have dots: "str_in ''..'' path \<longleftrightarrow> (\<exists>u v. path = u @ ''..'' @ v)"
    by (rule str_in_iff)
  have tilde: "str_in ''~'' path \<longleftrightarrow> CHR ''~'' \<in> set path"
    by (rule str_in_char)
  show ?thesis
    unfolding ensure_path_safety_def dots tilde by (rule refl)
qed

theorem ensure_path_safety_spec_witness:
  "ensure_path_safety ''a/../b'' = Inl (Exn ValueError ''Path 'a/../b' is not safe.'')
   \<and> ensure_path_safety ''~root/x'' = Inl (Exn ValueError ''Path '~root/x' is not safe.'')
   \<and> ensure_path_safety ''style.v1.safetensors'' = Inr ''style.v1.safetensors''"
  using ensure_path_safety_spec [of "''a/../b''"]
    ensure_path_safety_spec [of "''~root/x''"]
    ensure_path_safety_spec [of "''style.v1.safetensors''"]
  by (simp add: ensure_path_safety_def apostrophe_def)

section \<open>The world after an event\<close>

lemma emit_fields [simp]:
  "clock (emit e w) = Suc (clock w)"
  "fs (emit e w) = fs w"
  "cwd (emit e w) = cwd w"
  "wallclock (emit e w) = wallclock w"
  "trace (emit e w) = trace w @ [e]"
  by (simp_all add: emit_def)


section \<open>Properties of the path functions\<close>

lemma join_root_absolute: "startswith (os_path_join ''/'' filename) ''/''"
  by (cases filename) (auto simp: os_path_join_def)

lemma join_root_nonempty: "os_path_join ''/'' filename \<noteq> []"
  by (cases filename) (auto simp: os_path_join_def)

lemma abspath_root: "os_path_abspath current ''/'' = ''/''"
  by (simp add: os_path_abspath_def os_path_normpath_def)

lemma start_list_root:
  "filter (\<lambda>x. x \<noteq> []) (split_sep (os_path_abspath current ''/'')) = []"
  by (simp add: abspath_root)

text \<open>
  The resolver's call of \<open>relpath\<close> never raises and does not depend on the working
  directory: both of its arguments are absolute.
\<close>

lemma relpath_root:
  "os_path_relpath current (os_path_join ''/'' filename) ''/'' = Inr (root_relative filename)"
proof -
  have abs: "os_path_abspath current (os_path_join ''/'' filename)
      = os_path_normpath (os_path_join ''/'' filename)"
    by (simp add: os_path_abspath_def join_root_absolute)
  show ?thesis
    unfolding os_path_relpath_def start_list_root abs root_relative_def
    by (simp add: join_root_nonempty split: list.splits)
qed


section \<open>Properties of local path resolution\<close>

lemma ensure_path_safety_Inr: "ensure_path_safety path = Inr q \<Longrightarrow> q = path"
  by (simp add: ensure_path_safety_def split: if_splits)

lemma search_directories_Inr:
  assumes "search_directories fp category = Inr dirs"
  shows "ensure_path_safety category = Inr category
         \<and> (\<exists>exts. folder_names_and_paths fp (map_legacy fp category) = Some (dirs, exts))"
proof (cases "ensure_path_safety category")
  case (Inl e)
  with assms show ?thesis by (simp add: search_directories_def)
next
  case (Inr q)
  then have q: "q = category" by (rule ensure_path_safety_Inr)
  with Inr assms show ?thesis
    by (cases "folder_names_and_paths fp (map_legacy fp category)")
      (auto simp: search_directories_def)
qed



lemma search_folders_frame:
  "search_folders xs filename w = (r, w') \<Longrightarrow>
   fs w' = fs w \<and> cwd w' = cwd w \<and> wallclock w' = wallclock w"
proof (induction xs arbitrary: w)
  case Nil
  then show ?case by simp
next
  case (Cons x xs)
  then show ?case
    by (auto simp: os_path_isfile_def os_path_islink_def logging_warning_def Let_def
        split: if_splits)
qed


text \<open>The loop only queries the file system and logs warnings.\<close>

lemma search_folders_trace:
  "search_folders xs filename w = (r, w') \<Longrightarrow>
   \<exists>evs. trace w' = trace w @ evs \<and> list_all local_event evs"
proof (induction xs arbitrary: w)
  case Nil
  then show ?case by simp
next
  case (Cons x xs)
  let ?p = "os_path_join x filename"
  let ?w1 = "emit (IsFile ?p) w"
  let ?w2 = "emit (IsLink ?p) ?w1"
  let ?w3 = "emit (LogWarning (link_warning ?p)) ?w2"
  show ?case
  proof (cases "entry_isfile (fs w (clock w) ?p)")
    case True
    with Cons.prems have "w' = ?w1"
      by (simp add: os_path_isfile_def Let_def)
    then show ?thesis by simp
  next
    case notfile: False
    show ?thesis
    proof (cases "entry_islink (fs w (Suc (clock w)) ?p)")
      case True
      with notfile Cons.prems have "search_folders xs filename ?w3 = (r, w')"
        by (simp add: os_path_isfile_def os_path_islink_def logging_warning_def Let_def)
      from Cons.IH [OF this] obtain evs where
        "trace w' = trace ?w3 @ evs" "list_all local_event evs" by blast
      then have "trace w' = trace w @ ([IsFile ?p, IsLink ?p, LogWarning (link_warning ?p)] @ evs)
          \<and> list_all local_event ([IsFile ?p, IsLink ?p, LogWarning (link_warning ?p)] @ evs)"
        by simp
      then show ?thesis by blast
    next
      case False
      with notfile Cons.prems have "search_folders xs filename ?w2 = (r, w')"
        by (simp add: os_path_isfile_def os_path_islink_def logging_warning_def Let_def)
      from Cons.IH [OF this] obtain evs where
        "trace w' = trace ?w2 @ evs" "list_all local_event evs" by blast
      then have "trace w' = trace w @ ([IsFile ?p, IsLink ?p] @ evs)
          \<and> list_all local_event ([IsFile ?p, IsLink ?p] @ evs)"
        by simp
      then show ?thesis by blast
    qed
  qed
qed

text \<open>The resolver once both names have passed the safety check and the category is known.\<close>

lemma get_full_path_simulate_safe:
  assumes "ensure_path_safety category = Inr category"
      and "ensure_path_safety filename = Inr filename"
      and "folder_names_and_paths fp (map_legacy fp category) = Some (dirs, exts)"
  shows "get_full_path_simulate fp category filename w =
     (case search_folders dirs (root_relative filename) w of
        (Some full_path, w1) \<Rightarrow> (Inr (full_path, True), w1)
      | (None, w1) \<Rightarrow>
          (case dirs of
             [] \<Rightarrow> (Inl (Exn IndexError ''list index out of range''), w1)
           | first_folder # rest \<Rightarrow>
               let full_path = os_path_join first_folder (root_relative filename);
                   (is_file, w2) = os_path_isfile full_path w1
               in if \<not> is_file then (Inr (full_path, False), w2)
                  else (Inl (should_never_be_reached full_path), w2)))"
  using assms
  by (simp add: get_full_path_simulate_def relpath_root split: prod.splits option.splits)

lemma get_full_path_simulate_dirs:
  assumes "search_directories fp category = Inr dirs"
      and "ensure_path_safety filename = Inr filename"
  shows "get_full_path_simulate fp category filename w =
     (case search_folders dirs (root_relative filename) w of
        (Some full_path, w1) \<Rightarrow> (Inr (full_path, True), w1)
      | (None, w1) \<Rightarrow>
          (case dirs of
             [] \<Rightarrow> (Inl (Exn IndexError ''list index out of range''), w1)
           | first_folder # rest \<Rightarrow>
               let full_path = os_path_join first_folder (root_relative filename);
                   (is_file, w2) = os_path_isfile full_path w1
               in if \<not> is_file then (Inr (full_path, False), w2)
                  else (Inl (should_never_be_reached full_path), w2)))"
proof -
  from search_directories_Inr [OF assms(1)] obtain exts where
    "ensure_path_safety category = Inr category"
    "folder_names_and_paths fp (map_legacy fp category) = Some (dirs, exts)" by blast
  from get_full_path_simulate_safe [OF this(1) assms(2) this(2)] show ?thesis .
qed

text \<open>A category with no directory at all makes the fallback raise \<open>IndexError\<close>.\<close>

lemma get_full_path_simulate_no_directory:
  assumes "search_directories fp category = Inr []"
      and "ensure_path_safety filename = Inr filename"
  shows "get_full_path_simulate fp category filename w
         = (Inl (Exn IndexError ''list index out of range''), w)"
  by (simp add: get_full_path_simulate_dirs [OF assms])

text \<open>Whatever the resolver returns, it has only queried the file system and logged warnings.\<close>

lemma get_full_path_simulate_trace:
  assumes "get_full_path_simulate fp folder_name filename w = (r, w')"
  shows "\<exists>evs. trace w' = trace w @ evs \<and> list_all local_event evs"
proof -
  have same: "w' = w \<Longrightarrow> ?thesis" by simp
  show ?thesis
  proof (cases "ensure_path_safety folder_name")
    case (Inl e)
    with assms have "w' = w" by (simp add: get_full_path_simulate_def)
    then show ?thesis by (rule same)
  next
    case safe1: (Inr folder_name1)
    show ?thesis
    proof (cases "ensure_path_safety filename")
      case (Inl e)
      with assms safe1 have "w' = w" by (simp add: get_full_path_simulate_def)
      then show ?thesis by (rule same)
    next
      case safe2: (Inr filename1)
      show ?thesis
      proof (cases "folder_names_and_paths fp (map_legacy fp folder_name1)")
        case None
        with assms safe1 safe2 have "w' = w" by (simp add: get_full_path_simulate_def)
        then show ?thesis by (rule same)
      next
        case known: (Some folders)
        obtain found w1 where sf:
          "search_folders (fst folders) (root_relative filename1) w = (found, w1)"
          by (cases "search_folders (fst folders) (root_relative filename1) w")
        from search_folders_trace [OF sf] obtain evs where
          evs: "trace w1 = trace w @ evs" "list_all local_event evs" by blast
        show ?thesis
        proof (cases found)
          case (Some full_path)
          with assms safe1 safe2 known sf have "w' = w1"
            by (simp add: get_full_path_simulate_def relpath_root)
          with evs show ?thesis by blast
        next
          case None
          show ?thesis
          proof (cases "fst folders")
            case Nil
            with None assms safe1 safe2 known sf have "w' = w1"
              by (simp add: get_full_path_simulate_def relpath_root)
            with evs show ?thesis by blast
          next
            case (Cons first_folder rest)
            let ?e = "IsFile (os_path_join first_folder (root_relative filename1))"
            from Cons None assms safe1 safe2 known sf have "w' = emit ?e w1"
              by (auto simp: get_full_path_simulate_def relpath_root os_path_isfile_def Let_def
                  split: if_splits)
            with evs have "trace w' = trace w @ (evs @ [?e]) \<and> list_all local_event (evs @ [?e])"
              by simp
            then show ?thesis by blast
          qed
        qed
      qed
    qed
  qed
qed

lemma local_event_not_remote:
  "list_all local_event evs \<Longrightarrow>
   list_all (\<lambda>e. \<not> remote_event e \<and> \<not> fetch_start e \<and> \<not> load_event e) evs"
proof (induction evs)
  case Nil
  then show ?case by simp
next
  case (Cons e evs)
  then show ?case by (cases e) simp_all
qed

section \<open>The concrete inputs, evaluated\<close>

lemma demo_search_directories:
  "search_directories demo_folders ''loras'' = Inr [''/m/loras'', ''/m/extra'']"
  by (simp add: search_directories_def ensure_path_safety_def demo_folders_def)

lemma demo_names_safe:
  "ensure_path_safety ''a.pt'' = Inr ''a.pt''"
  "ensure_path_safety ''b.pt'' = Inr ''b.pt''"
  "ensure_path_safety ''c.pt'' = Inr ''c.pt''"
  "ensure_path_safety ''d'' = Inr ''d''"
  "ensure_path_safety ''lora'' = Inr ''lora''"
  by (simp_all add: ensure_path_safety_def)

lemma demo_root_relative:
  "root_relative ''a.pt'' = ''a.pt''"
  "root_relative ''b.pt'' = ''b.pt''"
  "root_relative ''c.pt'' = ''c.pt''"
  "root_relative ''d'' = ''d''"
  by (simp_all add: root_relative_def os_path_join_def os_path_normpath_def)

lemma demo_joins:
  "os_path_join ''/m/loras'' ''a.pt'' = ''/m/loras/a.pt''"
  "os_path_join ''/m/extra'' ''a.pt'' = ''/m/extra/a.pt''"
  "os_path_join ''/m/loras'' ''b.pt'' = ''/m/loras/b.pt''"
  "os_path_join ''/m/extra'' ''b.pt'' = ''/m/extra/b.pt''"
  "os_path_join ''/m/loras'' ''c.pt'' = ''/m/loras/c.pt''"
  "os_path_join ''/m/extra'' ''c.pt'' = ''/m/extra/c.pt''"
  "os_path_join ''/m/loras'' ''d'' = ''/m/loras/d''"
  "os_path_join ''/m/extra'' ''d'' = ''/m/extra/d''"
  by (simp_all add: os_path_join_def)

lemma demo_world_fs [simp]: "fs demo_world = demo_fs"
  by (simp add: demo_world_def)

lemma demo_entries:
  "demo_fs t ''/m/loras/a.pt'' = Plain Regular"
  "demo_fs t ''/m/extra/a.pt'' = Plain Regular"
  "demo_fs t ''/m/loras/b.pt'' = Symlink Missing"
  "demo_fs t ''/m/extra/b.pt'' = Plain Regular"
  "demo_fs t ''/m/loras/c.pt'' = Plain Missing"
  "demo_fs t ''/m/extra/c.pt'' = Plain Missing"
  "demo_fs t ''/m/loras/d'' = Plain Directory"
  "demo_fs t ''/m/extra/d'' = Plain Missing"
  by (simp_all add: demo_fs_def)

text \<open>What the resolver does on the four names.\<close>

lemma demo_resolve_a:
  "get_full_path_simulate demo_folders ''loras'' ''a.pt'' demo_world
   = (Inr (''/m/loras/a.pt'', True), emit (IsFile ''/m/loras/a.pt'') demo_world)"
  unfolding get_full_path_simulate_dirs [OF demo_search_directories demo_names_safe(1)]
  by (simp add: demo_root_relative demo_joins demo_entries os_path_isfile_def Let_def)

lemma demo_resolve_c:
  "get_full_path_simulate demo_folders ''loras'' ''c.pt'' demo_world
   = (Inr (''/m/loras/c.pt'', False),
      emit (IsFile ''/m/loras/c.pt'')
        (emit (IsLink ''/m/extra/c.pt'')
          (emit (IsFile ''/m/extra/c.pt'')
            (emit (IsLink ''/m/loras/c.pt'')
              (emit (IsFile ''/m/loras/c.pt'') demo_world)))))"
  unfolding get_full_path_simulate_dirs [OF demo_search_directories demo_names_safe(3)]
  by (simp add: demo_root_relative demo_joins demo_entries os_path_isfile_def
      os_path_islink_def Let_def)

lemma demo_resolve_d:
  "get_full_path_simulate demo_folders ''loras'' ''d'' demo_world
   = (Inr (''/m/loras/d'', False),
      emit (IsFile ''/m/loras/d'')
        (emit (IsLink ''/m/extra/d'')
          (emit (IsFile ''/m/extra/d'')
            (emit (IsLink ''/m/loras/d'')
              (emit (IsFile ''/m/loras/d'') demo_world)))))"
  unfolding get_full_path_simulate_dirs [OF demo_search_directories demo_names_safe(4)]
  by (simp add: demo_root_relative demo_joins demo_entries os_path_isfile_def
      os_path_islink_def Let_def)


section \<open>The claims about local path resolution\<close>





text \<open>
  C10, as the code has it. For a safe category name that the host's mapping does not
  hold (under the name \<open>map_legacy\<close> gives it), the resolver raises without touching the
  world: no query of the file system, no event at all. What it raises is the
  \<open>FileNotFoundError\<close> naming the category when the file name is safe; an unsafe file
  name is rejected first, with the \<open>ValueError\<close> of the safety check.
\<close>

theorem unknown_category_no_filesystem_access:
  assumes "ensure_path_safety category = Inr category"
      and "folder_names_and_paths fp (map_legacy fp category) = None"
  shows "get_full_path_simulate fp category filename w =
           (Inl (case ensure_path_safety filename of
                   Inl e \<Rightarrow> e
                 | Inr filename1 \<Rightarrow> folder_not_found (map_legacy fp category)), w)"
  using assms by (simp add: get_full_path_simulate_def split: sum.splits)

theorem unknown_category_no_filesystem_access_witness:
  "get_full_path_simulate demo_folders ''lora'' ''a.pt'' demo_world
     = (Inl (folder_not_found ''lora''), demo_world)"
proof -
  have absent: "folder_names_and_paths demo_folders (map_legacy demo_folders ''lora'') = None"
    by (simp add: demo_folders_def)
  from unknown_category_no_filesystem_access [OF demo_names_safe(5) absent, of "''a.pt''" demo_world]
  show ?thesis by (simp add: demo_names_safe demo_folders_def)
qed

text \<open>
  The claim C10 as it is written fails for an unsafe file name: the category \<open>lora\<close> is
  safe and not in the mapping, and the resolver raises the \<open>ValueError\<close> of the file
  name, not the \<open>FileNotFoundError\<close> of the category.
\<close>

theorem unknown_category_unsafe_filename:
  "ensure_path_safety ''lora'' = Inr ''lora''
   \<and> folder_names_and_paths demo_folders (map_legacy demo_folders ''lora'') = None
   \<and> get_full_path_simulate demo_folders ''lora'' ''~/a.pt'' demo_world
       = (Inl (Exn ValueError ''Path '~/a.pt' is not safe.''), demo_world)
   \<and> fst (get_full_path_simulate demo_folders ''lora'' ''~/a.pt'' demo_world)
       \<noteq> Inl (folder_not_found ''lora'')"
  by (simp add: get_full_path_simulate_def ensure_path_safety_def demo_folders_def
      apostrophe_def folder_not_found_def)

text \<open>
  C3, evaluated. \<open>/m/loras/d\<close> exists and is a directory, not a regular file, and no
  directory of the category holds a regular file \<open>d\<close>: the resolver does not raise, it
  returns the path with \<open>exists = False\<close>.
\<close>

theorem directory_at_fallback_is_returned_as_missing:
  "entry_exists (fs demo_world t ''/m/loras/d'')
   \<and> \<not> entry_isfile (fs demo_world t ''/m/loras/d'')
   \<and> fst (get_full_path_simulate demo_folders ''loras'' ''d'' demo_world)
       = Inr (''/m/loras/d'', False)"
  by (simp add: demo_resolve_d demo_entries)

text \<open>
  When the resolver does raise its \<open>RuntimeError\<close>, the path was a regular file at the
  last query: the file appeared after the loop had passed it.
\<close>

lemma should_never_be_reached_is_a_file:
  assumes "search_directories fp category = Inr dirs"
      and "ensure_path_safety filename = Inr filename"
      and "get_full_path_simulate fp category filename w
             = (Inl (should_never_be_reached p), w')"
  shows "\<exists>t. entry_isfile (fs w t p)"
proof -
  obtain found w1 where sf: "search_folders dirs (root_relative filename) w = (found, w1)"
    by (cases "search_folders dirs (root_relative filename) w")
  from search_folders_frame [OF sf] have frame: "fs w1 = fs w" by simp
  note run = assms(3) [unfolded get_full_path_simulate_dirs [OF assms(1,2)] sf]
  show ?thesis
  proof (cases found)
    case (Some q)
    with run show ?thesis by simp
  next
    case None
    show ?thesis
    proof (cases dirs)
      case Nil
      with None run show ?thesis by (simp add: should_never_be_reached_def)
    next
      case (Cons first_folder rest)
      let ?q = "os_path_join first_folder (root_relative filename)"
      from Cons None run have regular: "entry_isfile (fs w1 (clock w1) ?q)"
        and "should_never_be_reached ?q = should_never_be_reached p"
        by (auto simp: os_path_isfile_def Let_def split: if_splits)
      then have "?q = p" by (simp add: should_never_be_reached_def)
      with regular frame show ?thesis by auto
    qed
  qed
qed


section \<open>Properties of the remote fetch\<close>

lemma fetch_start_message: "fetch_start (LogInfo (fetching_message b k p))"
  by (simp add: fetching_message_def startswith_iff)

lemma except_Exception_cases:
  "except_Exception e w =
     (if is_Exception e then (Inr False, emit (LogError (error_message e)) w) else (Inl e, w))"
  by (simp add: except_Exception_def logging_error_def)

lemma is_Exception_none [simp]: "is_Exception none_has_no_head_object"
  by (simp add: none_has_no_head_object_def)

text \<open>Once the module is loaded, its \<open>s3_client\<close> is \<open>None\<close>.\<close>

lemma module_globals_client [simp]: "s3_client (module_globals c) = None"
  by (simp add: module_globals_def)

text \<open>Without a client the fetch logs its start, then the \<open>AttributeError\<close>, and returns \<open>False\<close>.\<close>

lemma get_lora_from_s3_no_client:
  "s3_client g = None \<Longrightarrow>
   get_lora_from_s3 g b k p w =
     (Inr False,
      emit (LogError (error_message none_has_no_head_object))
        (emit (LogInfo (fetching_message b k p)) w))"
  by (simp add: get_lora_from_s3_def except_Exception_cases logging_info_def)

text \<open>With a client, the fetch as a chain of its three calls.\<close>

lemma get_lora_from_s3_client:
  assumes "s3_client g = Some c"
  shows "get_lora_from_s3 g b k p w =
    (let w1 = emit (LogInfo (fetching_message b k p)) w;
         w2 = emit (HeadObject b k) w1;
         w3 = emit (DownloadFile b k p) w2
     in case head_object c (clock w1) b k of
          Inl e \<Rightarrow> except_Exception e w2
        | Inr response \<Rightarrow>
            (case response ''ContentLength'' of
               None \<Rightarrow>
                 except_Exception (Exn KeyError (apostrophe @ ''ContentLength'' @ apostrophe)) w2
             | Some file_size \<Rightarrow>
                 (case download_file c (clock w2) b k p (TransferConfig (1024 * 25) 10 (1024 * 25))
                         (ProgressPercentage file_size w2) of
                    Inl e \<Rightarrow> except_Exception e w3
                  | Inr u \<Rightarrow>
                      (Inr True, emit (LogInfoSaved p (time_time w3 - time_time w2)) w3))))"
  using assms
  by (simp add: get_lora_from_s3_def call_head_object_def logging_info_def
      call_download_file_def Let_def split: sum.splits option.splits)

text \<open>
  Every call of the fetch records its start once, first, and nothing it records later
  is the start of a fetch.
\<close>

lemma get_lora_from_s3_trace:
  assumes "get_lora_from_s3 g b k p w = (r, w')"
  shows "\<exists>evs. trace w' = trace w @ LogInfo (fetching_message b k p) # evs
           \<and> filter fetch_start evs = []"
proof -
  let ?w1 = "emit (LogInfo (fetching_message b k p)) w"
  have handler: "\<exists>evs. trace u' = trace u @ evs \<and> filter fetch_start evs = []"
    if "except_Exception e u = (r, u')" for e u u'
    using that by (auto simp: except_Exception_cases split: if_splits)
  show ?thesis
  proof (cases "s3_client g")
    case None
    from assms show ?thesis
      unfolding get_lora_from_s3_no_client [OF None] by auto
  next
    case (Some c)
    let ?w2 = "emit (HeadObject b k) ?w1"
    let ?w3 = "emit (DownloadFile b k p) ?w2"
    note run = assms [unfolded get_lora_from_s3_client [OF Some] Let_def]
    show ?thesis
    proof (cases "head_object c (clock ?w1) b k")
      case (Inl e)
      with run have "except_Exception e ?w2 = (r, w')" by simp
      from handler [OF this] obtain evs where
        "trace w' = trace ?w2 @ evs" "filter fetch_start evs = []" by blast
      then have "trace w' = trace w @ LogInfo (fetching_message b k p) # (HeadObject b k # evs)
          \<and> filter fetch_start (HeadObject b k # evs) = []" by simp
      then show ?thesis by blast
    next
      case (Inr response)
      show ?thesis
      proof (cases "response ''ContentLength''")
        case None
        with run Inr have
          "except_Exception (Exn KeyError (apostrophe @ ''ContentLength'' @ apostrophe)) ?w2
             = (r, w')"
          by simp
        from handler [OF this] obtain evs where
          "trace w' = trace ?w2 @ evs" "filter fetch_start evs = []" by blast
        then have "trace w' = trace w @ LogInfo (fetching_message b k p) # (HeadObject b k # evs)
            \<and> filter fetch_start (HeadObject b k # evs) = []" by simp
        then show ?thesis by blast
      next
        case sized: (Some file_size)
        show ?thesis
        proof (cases "download_file c (clock ?w2) b k p (TransferConfig (1024 * 25) 10 (1024 * 25))
                        (ProgressPercentage file_size ?w2)")
          case (Inl e)
          with run Inr sized have "except_Exception e ?w3 = (r, w')" by simp
          from handler [OF this] obtain evs where
            "trace w' = trace ?w3 @ evs" "filter fetch_start evs = []" by blast
          then have "trace w' = trace w @ LogInfo (fetching_message b k p)
                # (HeadObject b k # DownloadFile b k p # evs)
            \<and> filter fetch_start (HeadObject b k # DownloadFile b k p # evs) = []" by simp
          then show ?thesis by blast
        next
          case finished: (Inr u)
          let ?saved = "LogInfoSaved p (time_time ?w3 - time_time ?w2)"
          from run Inr sized finished have "w' = emit ?saved ?w3" by simp
          then have "trace w' = trace w @ LogInfo (fetching_message b k p)
                # [HeadObject b k, DownloadFile b k p, ?saved]
            \<and> filter fetch_start [HeadObject b k, DownloadFile b k p, ?saved] = []"
            by simp
          then show ?thesis by blast
        qed
      qed
    qed
  qed
qed

text \<open>The three stores, evaluated.\<close>

lemma full_store_fetch:
  "fst (get_lora_from_s3 \<lparr>s3_client = Some full_store\<rparr> b k p w) = Inr True"
  by (simp add: get_lora_from_s3_client full_store_def Let_def)

lemma empty_store_fetch:
  "get_lora_from_s3 \<lparr>s3_client = Some empty_store\<rparr> b k p w
   = (Inr False,
      emit (LogError (error_message (Exn ClientError ''Not Found'')))
        (emit (HeadObject b k) (emit (LogInfo (fetching_message b k p)) w)))"
  by (simp add: get_lora_from_s3_client empty_store_def Let_def except_Exception_cases)



section \<open>The claim about the remote fetch\<close>




section \<open>The claims about the local path or remote fetch\<close>

lemma get_full_path_or_raise_missing:
  assumes "get_full_path_simulate fp category filename w = (Inr (p, False), w1)"
      and "get_lora_from_s3 g b k p w1 = (r, w2)"
  shows "get_full_path_or_raise g fp category filename b k w =
     (case r of
        Inl e \<Rightarrow> Inl e
      | Inr fetched \<Rightarrow> if fetched then Inr p else Inl (failed_to_fetch b k), w2)"
  using assms by (simp add: get_full_path_or_raise_def split: sum.splits)

text \<open>
  C2. When the resolver reports the path \<open>p\<close> as missing, the fetch is called with
  destination \<open>p\<close>, and what \<open>get_full_path_or_raise\<close> leaves behind is the world that
  this call left: the events after the resolution hold one start of a fetch, the one
  for this bucket, key and \<open>p\<close>. If the fetch returned \<open>True\<close> the result is \<open>p\<close>; if it
  returned \<open>False\<close> the result is the \<open>FileNotFoundError\<close> naming bucket and key.
\<close>

theorem missing_file_one_fetch:
  assumes "get_full_path_simulate fp category filename w = (Inr (p, False), w1)"
      and "get_lora_from_s3 g b k p w1 = (r, w2)"
  shows "get_full_path_or_raise g fp category filename b k w =
           (case r of
              Inl e \<Rightarrow> Inl e
            | Inr fetched \<Rightarrow> if fetched then Inr p else Inl (failed_to_fetch b k), w2)
         \<and> (\<exists>evs. trace w2 = trace w1 @ evs
               \<and> filter fetch_start evs = [LogInfo (fetching_message b k p)])"
proof -
  from get_lora_from_s3_trace [OF assms(2)] obtain evs where
    evs: "trace w2 = trace w1 @ LogInfo (fetching_message b k p) # evs"
      "filter fetch_start evs = []" by blast
  then have "filter fetch_start (LogInfo (fetching_message b k p) # evs)
      = [LogInfo (fetching_message b k p)]"
    using fetch_start_message by simp
  with evs(1) have "\<exists>evs. trace w2 = trace w1 @ evs
      \<and> filter fetch_start evs = [LogInfo (fetching_message b k p)]" by blast
  with get_full_path_or_raise_missing [OF assms] show ?thesis by simp
qed

theorem missing_file_one_fetch_witness:
  "fst (get_full_path_or_raise \<lparr>s3_client = Some full_store\<rparr> demo_folders
          ''loras'' ''c.pt'' ''bkt'' ''key'' demo_world)
     = Inr ''/m/loras/c.pt''
   \<and> fst (get_full_path_or_raise \<lparr>s3_client = Some empty_store\<rparr> demo_folders
          ''loras'' ''c.pt'' ''bkt'' ''key'' demo_world)
     = Inl (failed_to_fetch ''bkt'' ''key'')"
proof -
  let ?w1 = "emit (IsFile ''/m/loras/c.pt'')
        (emit (IsLink ''/m/extra/c.pt'')
          (emit (IsFile ''/m/extra/c.pt'')
            (emit (IsLink ''/m/loras/c.pt'')
              (emit (IsFile ''/m/loras/c.pt'') demo_world))))"
  have run: "get_lora_from_s3 g ''bkt'' ''key'' ''/m/loras/c.pt'' ?w1
      = (fst (get_lora_from_s3 g ''bkt'' ''key'' ''/m/loras/c.pt'' ?w1),
         snd (get_lora_from_s3 g ''bkt'' ''key'' ''/m/loras/c.pt'' ?w1))" for g
    by simp
  from missing_file_one_fetch [OF demo_resolve_c run, of "\<lparr>s3_client = Some full_store\<rparr>"]
    missing_file_one_fetch [OF demo_resolve_c run, of "\<lparr>s3_client = Some empty_store\<rparr>"]
  show ?thesis by (simp add: full_store_fetch empty_store_fetch)
qed

text \<open>
  C9. When the resolver reports the path as present, \<open>get_full_path_or_raise\<close> returns it
  in the world the resolver left: nothing happens after the resolution, and the
  resolution itself has recorded no request to the object store, no start of a fetch
  and no read of a weight file.
\<close>

theorem present_file_no_remote:
  assumes "get_full_path_simulate fp category filename w = (Inr (p, True), w1)"
  shows "get_full_path_or_raise g fp category filename b k w = (Inr p, w1)
         \<and> (\<exists>evs. trace w1 = trace w @ evs
               \<and> list_all (\<lambda>e. \<not> remote_event e \<and> \<not> fetch_start e \<and> \<not> load_event e) evs)"
proof -
  from get_full_path_simulate_trace [OF assms] obtain evs where
    "trace w1 = trace w @ evs" "list_all local_event evs" by blast
  with local_event_not_remote [of evs] have "\<exists>evs. trace w1 = trace w @ evs
      \<and> list_all (\<lambda>e. \<not> remote_event e \<and> \<not> fetch_start e \<and> \<not> load_event e) evs" by blast
  moreover from assms have "get_full_path_or_raise g fp category filename b k w = (Inr p, w1)"
    by (simp add: get_full_path_or_raise_def)
  ultimately show ?thesis by simp
qed

theorem present_file_no_remote_witness:
  "get_full_path_or_raise \<lparr>s3_client = Some full_store\<rparr> demo_folders
      ''loras'' ''a.pt'' ''bkt'' ''key'' demo_world
     = (Inr ''/m/loras/a.pt'', emit (IsFile ''/m/loras/a.pt'') demo_world)"
  using present_file_no_remote [OF demo_resolve_a, of "\<lparr>s3_client = Some full_store\<rparr>"]
  by simp

text \<open>
  C1. Once the module is loaded, the fetch returns \<open>False\<close> for every bucket, key,
  destination and world, having logged its start and the \<open>AttributeError\<close> of \<open>None\<close>.
  So \<open>get_full_path_or_raise\<close> raises the \<open>FileNotFoundError\<close> naming bucket and key
  whenever the resolver reports the file as missing, and returns a path only when the
  resolver found the file.
\<close>

theorem loaded_module_fetch_always_fails:
  "get_lora_from_s3 (module_globals c) b k p w =
     (Inr False,
      emit (LogError (error_message none_has_no_head_object))
        (emit (LogInfo (fetching_message b k p)) w))
   \<and> (\<forall>q w1. get_full_path_simulate fp category filename w = (Inr (q, False), w1) \<longrightarrow>
         fst (get_full_path_or_raise (module_globals c) fp category filename b k w)
           = Inl (failed_to_fetch b k))
   \<and> (\<forall>q. fst (get_full_path_or_raise (module_globals c) fp category filename b k w) = Inr q
         \<longrightarrow> (\<exists>w1. get_full_path_simulate fp category filename w = (Inr (q, True), w1)))"
proof (intro conjI allI impI)
  show "get_lora_from_s3 (module_globals c) b k p w =
     (Inr False,
      emit (LogError (error_message none_has_no_head_object))
        (emit (LogInfo (fetching_message b k p)) w))"
    by (simp add: get_lora_from_s3_no_client)
next
  fix q w1
  assume "get_full_path_simulate fp category filename w = (Inr (q, False), w1)"
  then show "fst (get_full_path_or_raise (module_globals c) fp category filename b k w)
      = Inl (failed_to_fetch b k)"
    by (simp add: get_full_path_or_raise_def get_lora_from_s3_no_client)
next
  fix q
  assume ret: "fst (get_full_path_or_raise (module_globals c) fp category filename b k w) = Inr q"
  obtain r w1 where res: "get_full_path_simulate fp category filename w = (r, w1)"
    by (cases "get_full_path_simulate fp category filename w")
  show "\<exists>w1. get_full_path_simulate fp category filename w = (Inr (q, True), w1)"
  proof (cases r)
    case (Inl e)
    with res ret show ?thesis by (simp add: get_full_path_or_raise_def)
  next
    case (Inr found)
    obtain path ex where found: "found = (path, ex)" by (cases found)
    show ?thesis
    proof (cases ex)
      case True
      with res ret Inr found show ?thesis by (simp add: get_full_path_or_raise_def)
    next
      case False
      with res ret Inr found show ?thesis
        by (simp add: get_full_path_or_raise_def get_lora_from_s3_no_client)
    qed
  qed
qed

theorem loaded_module_fetch_always_fails_witness:
  "fst (get_full_path_or_raise (module_globals full_store) demo_folders
          ''loras'' ''c.pt'' ''bkt'' ''key'' demo_world)
     = Inl (failed_to_fetch ''bkt'' ''key'')"
  using loaded_module_fetch_always_fails
    [of full_store "''bkt''" "''key''" "''/m/loras/c.pt''" demo_world demo_folders
        "''loras''" "''c.pt''"]
    demo_resolve_c
  by simp

section \<open>Properties of the cache of the loader node\<close>







text \<open>With both strengths zero \<open>load_lora\<close> returns its models and touches nothing.\<close>

lemma load_lora_zero_strength:
  "load_lora g fp host self model clip lora_name 0 0 b k w = (Inr (model, clip), self, w)"
  by (simp add: load_lora_def)








section \<open>The claim about the cache\<close>




end
